theory Spec2Isabelle
  imports Complex_Main
begin

section \<open>Data model\<close>

text \<open>
  The dashboard script \<^verbatim>\<open>IREL_AG2050_Final_Visual_Attribution.py\<close> reads a table with the
  columns County, Year, CRISPR_YieldBoost, SolarAdoption, BiomassOutput and
  CarbonCreditsEarned. A data frame is the list of its rows, in file order. The four metric
  columns hold binary64 numbers in the program; here they are real numbers, so every
  product and sum below is the exact one and the rounding of the machine arithmetic is not
  part of the model. Python's \<^verbatim>\<open>str\<close> values are byte lists in UTF-8, which keeps
  equality and concatenation of strings as they are in the program.
\<close>

record metric_row =
  County :: string
  Year :: int
  CRISPR_YieldBoost :: real
  SolarAdoption :: real
  BiomassOutput :: real
  CarbonCreditsEarned :: real

type_synonym dataframe = "metric_row list"

datatype py_error = IndexError | ValueError

text \<open>Sequencing of computations that may raise: the first error is the result.\<close>

definition bind_err :: "py_error + 'a \<Rightarrow> ('a \<Rightarrow> py_error + 'b) \<Rightarrow> py_error + 'b" where
  "bind_err m f = (case m of Inl e \<Rightarrow> Inl e | Inr x \<Rightarrow> f x)"

text \<open>
  \<^verbatim>\<open>df[(df["County"] == county) & (df["Year"] == year)]\<close>: the rows with the key, in
  order (lines 24 and 52).
\<close>

definition select_rows :: "dataframe \<Rightarrow> string \<Rightarrow> int \<Rightarrow> dataframe" where
  "select_rows df county year = filter (\<lambda>r. County r = county \<and> Year r = year) df"

text \<open>\<^verbatim>\<open>series.values[0]\<close>: the first entry; IndexError on an empty column.\<close>

fun values0 :: "'a list \<Rightarrow> py_error + 'a" where
  "values0 [] = Inl IndexError"
| "values0 (v # vs) = Inr v"

section \<open>Python's number formatting\<close>

text \<open>\<^verbatim>\<open>str(n)\<close> for a natural number and for an integer.\<close>

function str_nat :: "nat \<Rightarrow> string" where
  "str_nat n =
     (if n < 10 then [''0123456789'' ! n]
      else str_nat (n div 10) @ [''0123456789'' ! (n mod 10)])"
  by pat_completeness auto
termination
  by (relation "measure id") auto

declare str_nat.simps [simp del]

definition str_int :: "int \<Rightarrow> string" where
  "str_int i = (if i < 0 then ''-'' @ str_nat (nat (- i)) else str_nat (nat i))"

text \<open>Rounding to the nearest integer, a tie going to the even neighbour.\<close>

definition round_half_even :: "real \<Rightarrow> int" where
  "round_half_even x =
     (let f = \<lfloor>x\<rfloor>; d = x - of_int f
      in if d < 1 / 2 then f
         else if 1 / 2 < d then f + 1
         else if even f then f else f + 1)"

definition zfill :: "nat \<Rightarrow> string \<Rightarrow> string" where
  "zfill w s = replicate (w - length s) (CHR ''0'') @ s"

text \<open>The digits after the point of the format \<^verbatim>\<open>.pf\<close>: nothing for \<^verbatim>\<open>.0f\<close>.\<close>

definition frac_part :: "nat \<Rightarrow> nat \<Rightarrow> string" where
  "frac_part p n = (if p = 0 then [] else ''.'' @ zfill p (str_nat (n mod 10 ^ p)))"

text \<open>\<^verbatim>\<open>f"{x:.pf}"\<close>: fixed point with \<open>p\<close> digits after the point.\<close>

definition fmt_f :: "nat \<Rightarrow> real \<Rightarrow> string" where
  "fmt_f p x =
     (let n = nat (round_half_even (\<bar>x\<bar> * 10 ^ p));
          body = str_nat (n div 10 ^ p) @ frac_part p n
      in if x < 0 then ''-'' @ body else body)"

text \<open>The thousands separator of the format \<^verbatim>\<open>,\<close>: a comma before every group of three digits.\<close>

function group3 :: "string \<Rightarrow> string" where
  "group3 s =
     (if length s \<le> 3 then s
      else group3 (take (length s - 3) s) @ '','' @ drop (length s - 3) s)"
  by pat_completeness auto
termination
  by (relation "measure length") auto

declare group3.simps [simp del]

text \<open>\<^verbatim>\<open>f"{x:,.pf}"\<close>.\<close>

definition fmt_comma_f :: "nat \<Rightarrow> real \<Rightarrow> string" where
  "fmt_comma_f p x =
     (let n = nat (round_half_even (\<bar>x\<bar> * 10 ^ p));
          body = group3 (str_nat (n div 10 ^ p)) @ frac_part p n
      in if x < 0 then ''-'' @ body else body)"

text \<open>\<^verbatim>\<open>round(x, p)\<close>.\<close>

definition py_round :: "real \<Rightarrow> nat \<Rightarrow> real" where
  "py_round x p = of_int (round_half_even (x * 10 ^ p)) / 10 ^ p"

section \<open>Policy toggles (lines 27 to 38)\<close>

text \<open>The four script variables read from the selected row and then scaled in place.\<close>

record metrics =
  yield_boost :: real
  solar_pct :: real
  biomass :: real
  carbon_offset :: real

definition apply_toggles :: "bool \<Rightarrow> bool \<Rightarrow> bool \<Rightarrow> metrics \<Rightarrow> metrics" where
  "apply_toggles agro_toggle solar_toggle bio_toggle m0 =
     (let m1 = (if agro_toggle then m0\<lparr>yield_boost := yield_boost m0 * 1.1\<rparr> else m0);
          m2 = (if solar_toggle then m1\<lparr>solar_pct := solar_pct m1 * 1.15\<rparr> else m1);
          m3 = (if bio_toggle
                then m2\<lparr>biomass := biomass m2 * 1.2, carbon_offset := carbon_offset m2 * 1.05\<rparr>
                else m2)
      in m3)"

section \<open>Persona responses (lines 51 to 87)\<close>

definition persona_EIREA :: string where
  "persona_EIREA = [CHR 0xC3, CHR 0x89] @ ''IREA''"

definition persona_SOLARA :: string where
  "persona_SOLARA = ''SOLARA''"

definition persona_GRAINA :: string where
  "persona_GRAINA = ''GRAINA''"

definition persona_AI_SCEAL :: string where
  "persona_AI_SCEAL = ''AI-SCEAL''"

text \<open>The subscript two of \<^verbatim>\<open>mtCO2\<close> (U+2082) and the en dash (U+2013), in UTF-8.\<close>

definition sub_two :: string where
  "sub_two = [CHR 0xE2, CHR 0x82, CHR 0x82]"

definition en_dash :: string where
  "en_dash = [CHR 0xE2, CHR 0x80, CHR 0x93]"

text \<open>Line 80.\<close>

definition risk_score :: "real \<Rightarrow> real \<Rightarrow> real \<Rightarrow> real" where
  "risk_score yield_val solar_val bio_val =
     100 - min 100 (yield_val / 6 + solar_val + bio_val * 2)"

definition no_data :: string where
  "no_data = ''No data available for this county and year.''"

definition no_persona :: string where
  "no_persona = ''No persona selected.''"

definition eirea_text :: "string \<Rightarrow> int \<Rightarrow> real \<Rightarrow> string" where
  "eirea_text county year yield_val =
     persona_EIREA @ '': In '' @ str_int year @ '', '' @ county
       @ '' achieved a CRISPR-driven yield boost of '' @ fmt_f 1 yield_val @ '' kg/ha. ''
     @ ''This provides a solid base for transitioning to more resilient agroforestry systems. ''
     @ ''Agroforestry support programs should prioritize regions with >'' @ fmt_f 1 yield_val
       @ '' kg/ha to capitalize on biological synergies.''"

definition solara_text :: "string \<Rightarrow> int \<Rightarrow> real \<Rightarrow> string" where
  "solara_text county year solar_val =
     ''SOLARA: As of '' @ str_int year @ '', solar adoption in '' @ county @ '' reached ''
       @ fmt_f 1 solar_val @ ''%. ''
     @ ''If current CAP solar incentives continue, we expect adoption to exceed ''
       @ fmt_f 1 (solar_val * 1.15) @ ''% by '' @ str_int (year + 1) @ ''. ''
     @ ''Consider aligning grid feed-in tariffs accordingly.''"

definition graina_text :: "string \<Rightarrow> int \<Rightarrow> real \<Rightarrow> real \<Rightarrow> string" where
  "graina_text county year yield_val carbon_val =
     ''GRAINA: With '' @ fmt_f 0 yield_val @ '' kg/ha in yields and '' @ fmt_f 2 carbon_val
       @ '' mtCO'' @ sub_two @ '' in credits, ''
     @ county @ '' is positioned to enhance traceability premiums by 8'' @ en_dash
       @ ''12% over baseline. ''
     @ ''Local cooperatives should focus on export certification training in Q''
       @ str_int (year mod 4 + 1) @ ''.''"

definition ai_sceal_text :: "string \<Rightarrow> int \<Rightarrow> real \<Rightarrow> string" where
  "ai_sceal_text county year score =
     ''AI-SCEAL: Citizen confidence correlates with visible green returns. ''
     @ ''In '' @ str_int year @ '', the combined bio-solar-carbon mix in '' @ county
       @ '' suggests a policy risk score of '' @ fmt_f 1 score @ ''. ''
     @ ''Targeted awareness campaigns should begin immediately.''"

definition generate_persona_response ::
    "string \<Rightarrow> string \<Rightarrow> int \<Rightarrow> dataframe \<Rightarrow> py_error + string" where
  "generate_persona_response persona county year df =
     (let row = select_rows df county year in
      if row = [] then Inr no_data
      else
        bind_err (values0 (map CRISPR_YieldBoost row)) (\<lambda>yield_val.
        bind_err (values0 (map SolarAdoption row)) (\<lambda>solar_val.
        bind_err (values0 (map BiomassOutput row)) (\<lambda>bio_val.
        bind_err (values0 (map CarbonCreditsEarned row)) (\<lambda>carbon_val.
          if persona = persona_EIREA then Inr (eirea_text county year yield_val)
          else if persona = persona_SOLARA then Inr (solara_text county year solar_val)
          else if persona = persona_GRAINA then
            Inr (graina_text county year yield_val carbon_val)
          else if persona = persona_AI_SCEAL then
            Inr (ai_sceal_text county year (risk_score yield_val solar_val bio_val))
          else Inr no_persona)))))"

section \<open>Economic impact (lines 104 to 111)\<close>

definition grain_price_per_kg :: real where
  "grain_price_per_kg = 0.22"

definition price_per_tonne :: real where
  "price_per_tonne = 85"

record economics =
  solar_savings :: real
  bio_revenue :: real
  carbon_revenue :: real
  yield_revenue :: real
  total_impact :: real

definition economic_impact :: "metrics \<Rightarrow> economics" where
  "economic_impact m =
     (let ss = solar_pct m * 120;
          br = biomass m * 45;
          cr = carbon_offset m * price_per_tonne;
          yr = yield_boost m * grain_price_per_kg
      in \<lparr>solar_savings = ss, bio_revenue = br, carbon_revenue = cr, yield_revenue = yr,
          total_impact = yr + ss + br + cr\<rparr>)"

section \<open>The script\<close>

text \<open>
  One run of the script, from the loaded data frame and the values of the sidebar and
  persona widgets (which are inputs here) to what it puts on the page: the adjusted metrics and their four
  formatted tiles, the persona's answer (only when a question was typed), the economic
  figures, the formatted total and the rounded breakdown (in the order of the dictionary
  of line 118). The charts draw the data frame as it is and are left out.

  Line 16 takes \<^verbatim>\<open>int(df["Year"].min())\<close>, which raises ValueError on a frame without
  rows. Lines 27 to 30 index the selected rows without a check.
\<close>

record dashboard =
  adjusted :: metrics
  subheader :: string
  tiles :: "string list"
  response :: "string option"
  impact :: economics
  impact_shown :: string
  breakdown :: "real list"

definition em_dash :: string where
  "em_dash = [CHR 0xE2, CHR 0x80, CHR 0x94]"

text \<open>Lines 95 to 97: the persona answers only when a question was typed.\<close>

definition ask :: "string \<Rightarrow> string \<Rightarrow> string \<Rightarrow> int \<Rightarrow> dataframe \<Rightarrow> py_error + string option" where
  "ask question persona selected_county selected_year df =
     (if question \<noteq> [] then
        bind_err (generate_persona_response persona selected_county selected_year df)
          (\<lambda>response. Inr (Some response))
      else Inr None)"

definition script ::
    "dataframe \<Rightarrow> string \<Rightarrow> int \<Rightarrow> bool \<Rightarrow> bool \<Rightarrow> bool \<Rightarrow> string \<Rightarrow> string
      \<Rightarrow> py_error + dashboard" where
  "script df selected_county selected_year agro_toggle solar_toggle bio_toggle persona question =
     (if df = [] then Inl ValueError
      else
        let data_filtered = select_rows df selected_county selected_year in
        bind_err (values0 (map CRISPR_YieldBoost data_filtered)) (\<lambda>y0.
        bind_err (values0 (map SolarAdoption data_filtered)) (\<lambda>s0.
        bind_err (values0 (map BiomassOutput data_filtered)) (\<lambda>b0.
        bind_err (values0 (map CarbonCreditsEarned data_filtered)) (\<lambda>c0.
          let m = apply_toggles agro_toggle solar_toggle bio_toggle
                    \<lparr>yield_boost = y0, solar_pct = s0, biomass = b0, carbon_offset = c0\<rparr>
          in
          bind_err (ask question persona selected_county selected_year df) (\<lambda>resp.
            let e = economic_impact m in
            Inr \<lparr>adjusted = m,
                 subheader = selected_county @ '' '' @ em_dash @ '' Year: ''
                               @ str_int selected_year,
                 tiles = [fmt_f 1 (yield_boost m), fmt_f 1 (solar_pct m),
                          fmt_f 2 (biomass m), fmt_f 2 (carbon_offset m)],
                 response = resp,
                 impact = e,
                 impact_shown = fmt_comma_f 0 (total_impact e),
                 breakdown = [py_round (yield_revenue e) 2, py_round (solar_savings e) 2,
                              py_round (bio_revenue e) 2, py_round (carbon_revenue e) 2]\<rparr>))))))"

text \<open>
  What the sidebar can hand to the script: a county that occurs in the County column and a
  year between the least and the greatest year of the whole table (lines 15 and 16).
\<close>

definition offered :: "dataframe \<Rightarrow> string \<Rightarrow> int \<Rightarrow> bool" where
  "offered df county year =
     (county \<in> set (map County df) \<and> list_ex (\<lambda>r. Year r \<le> year) df
        \<and> list_ex (\<lambda>r. year \<le> Year r) df)"

section \<open>Sample data\<close>

definition row_cork :: metric_row where
  "row_cork = \<lparr>County = ''Cork'', Year = 2025, CRISPR_YieldBoost = 1000, SolarAdoption = 30,
                 BiomassOutput = 50, CarbonCreditsEarned = 10\<rparr>"

definition row_cork_again :: metric_row where
  "row_cork_again = \<lparr>County = ''Cork'', Year = 2025, CRISPR_YieldBoost = 990,
                       SolarAdoption = 31, BiomassOutput = 49, CarbonCreditsEarned = 11\<rparr>"

definition row_dublin :: metric_row where
  "row_dublin = \<lparr>County = ''Dublin'', Year = 2026, CRISPR_YieldBoost = 900, SolarAdoption = 20,
                   BiomassOutput = 40, CarbonCreditsEarned = 5\<rparr>"

definition row_kerry :: metric_row where
  "row_kerry = \<lparr>County = ''Kerry'', Year = 2025, CRISPR_YieldBoost = - 660, SolarAdoption = 4,
                  BiomassOutput = 3, CarbonCreditsEarned = 2\<rparr>"

text \<open>A table with a gap (no row for Cork in 2026) and a table with a repeated key.\<close>

definition df_gap :: dataframe where
  "df_gap = [row_cork, row_dublin]"

definition df_repeat :: dataframe where
  "df_repeat = [row_dublin, row_cork, row_kerry, row_cork_again]"

section \<open>Basic facts\<close>

lemma bind_err_Inr [simp]: "bind_err (Inr x) f = f x"
  by (simp add: bind_err_def)

lemma bind_err_Inl [simp]: "bind_err (Inl e) f = Inl e"
  by (simp add: bind_err_def)

lemma select_rows_Nil [simp]: "select_rows [] county year = []"
  by (simp add: select_rows_def)

lemma select_rows_frame:
  assumes "select_rows df county year = r # rs"
  shows "df \<noteq> []"
  using assms by auto

section \<open>The persona generator\<close>

lemma persona_names_distinct:
  "persona_EIREA \<noteq> persona_SOLARA" "persona_EIREA \<noteq> persona_GRAINA"
  "persona_EIREA \<noteq> persona_AI_SCEAL" "persona_SOLARA \<noteq> persona_GRAINA"
  "persona_SOLARA \<noteq> persona_AI_SCEAL" "persona_GRAINA \<noteq> persona_AI_SCEAL"
  by (simp_all add: persona_EIREA_def persona_SOLARA_def persona_GRAINA_def
      persona_AI_SCEAL_def)

lemma generate_persona_response_missing:
  assumes "select_rows df county year = []"
  shows "generate_persona_response persona county year df = Inr no_data"
  using assms by (simp add: generate_persona_response_def)

lemma generate_persona_response_resolved:
  assumes "select_rows df county year = r # rs"
  shows "generate_persona_response persona county year df =
           (if persona = persona_EIREA then Inr (eirea_text county year (CRISPR_YieldBoost r))
            else if persona = persona_SOLARA then
              Inr (solara_text county year (SolarAdoption r))
            else if persona = persona_GRAINA then
              Inr (graina_text county year (CRISPR_YieldBoost r) (CarbonCreditsEarned r))
            else if persona = persona_AI_SCEAL then
              Inr (ai_sceal_text county year
                     (risk_score (CRISPR_YieldBoost r) (SolarAdoption r) (BiomassOutput r)))
            else Inr no_persona)"
  using assms by (simp add: generate_persona_response_def)

lemma generate_persona_response_returns:
  "\<exists>s. generate_persona_response persona county year df = Inr s"
proof (cases "select_rows df county year")
  case Nil
  then show ?thesis
    by (simp add: generate_persona_response_missing)
next
  case (Cons r rs)
  then show ?thesis
    by (simp add: generate_persona_response_resolved)
qed

lemma ask_returns: "\<exists>a. ask question persona county year df = Inr a"
proof -
  obtain s where "generate_persona_response persona county year df = Inr s"
    using generate_persona_response_returns by blast
  then show ?thesis
    by (simp add: ask_def)
qed

section \<open>The script on a key with a row, and on a key without\<close>

lemma script_resolved:
  assumes "select_rows df county year = r # rs"
  shows "\<exists>out. script df county year agro solar bio persona question = Inr out
           \<and> adjusted out = apply_toggles agro solar bio
                \<lparr>yield_boost = CRISPR_YieldBoost r, solar_pct = SolarAdoption r,
                 biomass = BiomassOutput r, carbon_offset = CarbonCreditsEarned r\<rparr>
           \<and> impact out = economic_impact (adjusted out)
           \<and> ask question persona county year df = Inr (response out)"
proof -
  obtain a where a: "ask question persona county year df = Inr a"
    using ask_returns by blast
  have "df \<noteq> []"
    using assms by (rule select_rows_frame)
  then show ?thesis
    using assms a by (simp add: script_def Let_def)
qed

lemma script_missing:
  assumes "select_rows df county year = []"
  shows "script df county year agro solar bio persona question =
           Inl (if df = [] then ValueError else IndexError)"
  using assms by (simp add: script_def)

section \<open>Facts about the sample data\<close>

lemma df_repeat_cork: "select_rows df_repeat ''Cork'' 2025 = [row_cork, row_cork_again]"
  by (simp add: select_rows_def df_repeat_def row_cork_def row_cork_again_def row_dublin_def
      row_kerry_def)

lemma df_repeat_kerry: "select_rows df_repeat ''Kerry'' 2025 = [row_kerry]"
  by (simp add: select_rows_def df_repeat_def row_cork_def row_cork_again_def row_dublin_def
      row_kerry_def)

lemma df_gap_cork: "select_rows df_gap ''Cork'' 2025 = [row_cork]"
  by (simp add: select_rows_def df_gap_def row_cork_def row_dublin_def)

lemma df_gap_missing: "select_rows df_gap ''Cork'' 2026 = []"
  by (simp add: select_rows_def df_gap_def row_cork_def row_dublin_def)

section \<open>The policy toggles\<close>

text \<open>
  C1. Whatever the three toggles are, a run of the script on a key with a row ends with the
  four adjusted metrics equal to the base values of that row, each one scaled exactly when
  its toggle is on: the yield boost by 1.1 under the agroforestry toggle, the solar
  adoption by 1.15 under the solar toggle, and under the bioenergy toggle the biomass
  output by 1.2 and the carbon credits by 1.05.
\<close>

theorem toggles_applied_when_on:
  assumes "select_rows df county year = r # rs"
  shows "\<exists>out. script df county year agro solar bio persona question = Inr out
           \<and> yield_boost (adjusted out) =
               (if agro then CRISPR_YieldBoost r * 1.1 else CRISPR_YieldBoost r)
           \<and> solar_pct (adjusted out) =
               (if solar then SolarAdoption r * 1.15 else SolarAdoption r)
           \<and> biomass (adjusted out) =
               (if bio then BiomassOutput r * 1.2 else BiomassOutput r)
           \<and> carbon_offset (adjusted out) =
               (if bio then CarbonCreditsEarned r * 1.05 else CarbonCreditsEarned r)"
proof -
  obtain out where run: "script df county year agro solar bio persona question = Inr out"
    and adj: "adjusted out = apply_toggles agro solar bio
                \<lparr>yield_boost = CRISPR_YieldBoost r, solar_pct = SolarAdoption r,
                 biomass = BiomassOutput r, carbon_offset = CarbonCreditsEarned r\<rparr>"
    using script_resolved [OF assms] by blast
  show ?thesis
    using run by (simp add: adj apply_toggles_def)
qed

theorem toggles_applied_when_on_witness:
  "select_rows df_repeat ''Cork'' 2025 = row_cork # [row_cork_again]
   \<and> (\<exists>out. script df_repeat ''Cork'' 2025 True True False persona_SOLARA ''How much?'' = Inr out
         \<and> yield_boost (adjusted out) = 1100 \<and> solar_pct (adjusted out) = 34.5
         \<and> biomass (adjusted out) = 50 \<and> carbon_offset (adjusted out) = 10)"
proof -
  have h: "select_rows df_repeat ''Cork'' 2025 = row_cork # [row_cork_again]"
    by (simp add: df_repeat_cork)
  show ?thesis
    using h toggles_applied_when_on [OF h, of True True False persona_SOLARA "''How much?''"]
    by (simp add: row_cork_def)
qed

text \<open>
  C7. With the agroforestry toggle alone, the yield boost is the base value times 1.1 and
  the solar adoption, the biomass output and the carbon credits are the base values.
\<close>

theorem agro_toggle_alone:
  assumes "select_rows df county year = r # rs"
  shows "\<exists>out. script df county year True False False persona question = Inr out
           \<and> yield_boost (adjusted out) = CRISPR_YieldBoost r * 1.1
           \<and> solar_pct (adjusted out) = SolarAdoption r
           \<and> biomass (adjusted out) = BiomassOutput r
           \<and> carbon_offset (adjusted out) = CarbonCreditsEarned r"
proof -
  obtain out where run: "script df county year True False False persona question = Inr out"
    and adj: "adjusted out = apply_toggles True False False
                \<lparr>yield_boost = CRISPR_YieldBoost r, solar_pct = SolarAdoption r,
                 biomass = BiomassOutput r, carbon_offset = CarbonCreditsEarned r\<rparr>"
    using script_resolved [OF assms] by blast
  show ?thesis
    using run by (simp add: adj apply_toggles_def)
qed

theorem agro_toggle_alone_witness:
  "select_rows df_repeat ''Kerry'' 2025 = row_kerry # []
   \<and> (\<exists>out. script df_repeat ''Kerry'' 2025 True False False persona_GRAINA [] = Inr out
         \<and> yield_boost (adjusted out) = - 726 \<and> solar_pct (adjusted out) = 4
         \<and> biomass (adjusted out) = 3 \<and> carbon_offset (adjusted out) = 2)"
proof -
  have h: "select_rows df_repeat ''Kerry'' 2025 = row_kerry # []"
    by (simp add: df_repeat_kerry)
  show ?thesis
    using h agro_toggle_alone [OF h, of persona_GRAINA "[]"]
    by (simp add: row_kerry_def)
qed

section \<open>The economic breakdown\<close>

text \<open>
  C3. For all adjusted metrics, the yield revenue is the yield boost times 0.22, the solar
  savings are the solar adoption times 120, the biomass revenue is the biomass output times
  45, the carbon revenue is the carbon credits times 85, and the total is the sum of the
  four.
\<close>

theorem economic_breakdown_formulas:
  "yield_revenue (economic_impact m) = yield_boost m * 0.22
   \<and> solar_savings (economic_impact m) = solar_pct m * 120
   \<and> bio_revenue (economic_impact m) = biomass m * 45
   \<and> carbon_revenue (economic_impact m) = carbon_offset m * 85
   \<and> total_impact (economic_impact m) =
       yield_revenue (economic_impact m) + solar_savings (economic_impact m)
         + bio_revenue (economic_impact m) + carbon_revenue (economic_impact m)"
  by (simp add: economic_impact_def Let_def grain_price_per_kg_def price_per_tonne_def)

text \<open>
  C4. On a row with yield 1000, solar 30, biomass 50 and carbon 10, with the agroforestry
  and bioenergy toggles on and the solar toggle off, the adjusted metrics are 1100, 30, 60
  and 10.5, and the breakdown is 242 of yield revenue, 3600 of solar savings, 2700 of
  biomass revenue and 892.5 of carbon revenue, 7434.5 in total.
\<close>

theorem spec_example:
  assumes "select_rows df county year = r # rs"
    and "CRISPR_YieldBoost r = 1000" and "SolarAdoption r = 30"
    and "BiomassOutput r = 50" and "CarbonCreditsEarned r = 10"
  shows "\<exists>out. script df county year True False True persona question = Inr out
           \<and> adjusted out =
               \<lparr>yield_boost = 1100, solar_pct = 30, biomass = 60, carbon_offset = 10.5\<rparr>
           \<and> impact out =
               \<lparr>solar_savings = 3600, bio_revenue = 2700, carbon_revenue = 892.5,
                yield_revenue = 242, total_impact = 7434.5\<rparr>"
proof -
  obtain out where run: "script df county year True False True persona question = Inr out"
    and adj: "adjusted out = apply_toggles True False True
                \<lparr>yield_boost = CRISPR_YieldBoost r, solar_pct = SolarAdoption r,
                 biomass = BiomassOutput r, carbon_offset = CarbonCreditsEarned r\<rparr>"
    and imp: "impact out = economic_impact (adjusted out)"
    using script_resolved [OF assms(1)] by blast
  have m: "adjusted out =
             \<lparr>yield_boost = 1100, solar_pct = 30, biomass = 60, carbon_offset = 10.5\<rparr>"
    by (simp add: adj apply_toggles_def assms(2-5))
  have "impact out =
          \<lparr>solar_savings = 3600, bio_revenue = 2700, carbon_revenue = 892.5,
           yield_revenue = 242, total_impact = 7434.5\<rparr>"
    by (simp add: imp m economic_impact_def Let_def grain_price_per_kg_def price_per_tonne_def)
  then show ?thesis
    using run m by simp
qed

theorem spec_example_witness:
  "select_rows df_gap ''Cork'' 2025 = row_cork # []
   \<and> CRISPR_YieldBoost row_cork = 1000 \<and> SolarAdoption row_cork = 30
   \<and> BiomassOutput row_cork = 50 \<and> CarbonCreditsEarned row_cork = 10
   \<and> (\<exists>out. script df_gap ''Cork'' 2025 True False True persona_EIREA [] = Inr out
         \<and> adjusted out =
             \<lparr>yield_boost = 1100, solar_pct = 30, biomass = 60, carbon_offset = 10.5\<rparr>
         \<and> impact out =
             \<lparr>solar_savings = 3600, bio_revenue = 2700, carbon_revenue = 892.5,
              yield_revenue = 242, total_impact = 7434.5\<rparr>)"
proof -
  have h: "select_rows df_gap ''Cork'' 2025 = row_cork # []"
    by (simp add: df_gap_cork)
  have v: "CRISPR_YieldBoost row_cork = 1000" "SolarAdoption row_cork = 30"
    "BiomassOutput row_cork = 50" "CarbonCreditsEarned row_cork = 10"
    by (simp_all add: row_cork_def)
  show ?thesis
    using h v spec_example [OF h v, of persona_EIREA "[]"] by simp
qed

section \<open>The risk score of the AI-SCEAL persona\<close>

text \<open>
  C5, as the specification states it, says that some inputs make the score
  \<^verbatim>\<open>100 - min(100, yield/6 + solar + biomass*2)\<close> negative. No input does: the
  subtracted term is at most 100.
\<close>

theorem risk_score_negative_refuted:
  "\<not> (\<exists>yield_val solar_val bio_val. risk_score yield_val solar_val bio_val < 0)"
  by (simp add: risk_score_def not_less)

text \<open>
  C5, amended. For all inputs the score is at least 0: the \<^verbatim>\<open>min\<close> caps the subtracted
  term at 100, which floors the score at 0, so that the score is the greater of 0 and
  \<^verbatim>\<open>100 - (yield/6 + solar + biomass*2)\<close>. Nothing caps the score from above: with a
  yield of -660, solar 4 and biomass 3 it is 200.
\<close>

theorem risk_score_floored_not_capped:
  "0 \<le> risk_score yield_val solar_val bio_val
   \<and> risk_score yield_val solar_val bio_val =
       max 0 (100 - (yield_val / 6 + solar_val + bio_val * 2))
   \<and> risk_score (- 660) 4 3 = 200"
  by (simp add: risk_score_def min_def max_def)

text \<open>
  C6. On a key with a row, the answer of the AI-SCEAL persona is its template filled with
  the score \<^verbatim>\<open>100 - min(100, yield/6 + solar + biomass*2)\<close> of the row's own
  CRISPR_YieldBoost, SolarAdoption and BiomassOutput, also inside a run of the script
  under any setting of the toggles.
\<close>

theorem ai_sceal_score_from_raw_fields:
  assumes "select_rows df county year = r # rs" and "question \<noteq> []"
  shows "generate_persona_response persona_AI_SCEAL county year df =
           Inr (ai_sceal_text county year
                  (100 - min 100 (CRISPR_YieldBoost r / 6 + SolarAdoption r
                                    + BiomassOutput r * 2)))
         \<and> (\<exists>out. script df county year agro solar bio persona_AI_SCEAL question = Inr out
               \<and> response out =
                   Some (ai_sceal_text county year
                           (100 - min 100 (CRISPR_YieldBoost r / 6 + SolarAdoption r
                                             + BiomassOutput r * 2))))"
proof -
  have g: "generate_persona_response persona_AI_SCEAL county year df =
             Inr (ai_sceal_text county year
                    (100 - min 100 (CRISPR_YieldBoost r / 6 + SolarAdoption r
                                      + BiomassOutput r * 2)))"
    using persona_names_distinct
    by (simp add: generate_persona_response_resolved [OF assms(1)] risk_score_def)
  obtain out where
    run: "script df county year agro solar bio persona_AI_SCEAL question = Inr out"
    and a: "ask question persona_AI_SCEAL county year df = Inr (response out)"
    using script_resolved [OF assms(1)] by blast
  have "response out =
          Some (ai_sceal_text county year
                  (100 - min 100 (CRISPR_YieldBoost r / 6 + SolarAdoption r
                                    + BiomassOutput r * 2)))"
    using a assms(2) by (simp add: ask_def g)
  then show ?thesis
    using g run by simp
qed

theorem ai_sceal_score_from_raw_fields_witness:
  "select_rows df_repeat ''Kerry'' 2025 = row_kerry # [] \<and> ''Risk?'' \<noteq> []
   \<and> generate_persona_response persona_AI_SCEAL ''Kerry'' 2025 df_repeat =
       Inr (ai_sceal_text ''Kerry'' 2025 200)
   \<and> (\<exists>out. script df_repeat ''Kerry'' 2025 True True True persona_AI_SCEAL ''Risk?'' = Inr out
         \<and> response out = Some (ai_sceal_text ''Kerry'' 2025 200))"
proof -
  have h: "select_rows df_repeat ''Kerry'' 2025 = row_kerry # []"
    by (simp add: df_repeat_kerry)
  have q: "''Risk?'' \<noteq> []"
    by simp
  show ?thesis
    using h ai_sceal_score_from_raw_fields [OF h q, of True True True]
    by (simp add: row_kerry_def)
qed

section \<open>Answers and toggles\<close>

text \<open>
  C8. The answer depends on the persona, the county, the year, the question and the four
  raw metric fields of the selected row, and on nothing else: two runs of the script with
  the same persona, key and question, on tables whose selected rows agree on the four
  metric fields, give the same answer whatever the toggles of either run are. With one
  table in both runs, this is that the toggles do not reach the answer.
\<close>

theorem response_independent_of_toggles:
  assumes "select_rows df county year = r # rs"
    and "select_rows df' county year = r' # rs'"
    and "CRISPR_YieldBoost r' = CRISPR_YieldBoost r" and "SolarAdoption r' = SolarAdoption r"
    and "BiomassOutput r' = BiomassOutput r"
    and "CarbonCreditsEarned r' = CarbonCreditsEarned r"
  shows "\<exists>out out'.
           script df county year agro solar bio persona question = Inr out
           \<and> script df' county year agro' solar' bio' persona question = Inr out'
           \<and> response out' = response out"
proof -
  obtain out where
    run: "script df county year agro solar bio persona question = Inr out"
    and a: "ask question persona county year df = Inr (response out)"
    using script_resolved [OF assms(1)] by blast
  obtain out' where
    run': "script df' county year agro' solar' bio' persona question = Inr out'"
    and a': "ask question persona county year df' = Inr (response out')"
    using script_resolved [OF assms(2)] by blast
  have "generate_persona_response persona county year df' =
          generate_persona_response persona county year df"
    by (simp only: generate_persona_response_resolved [OF assms(1)]
        generate_persona_response_resolved [OF assms(2)] assms(3-6))
  then have "ask question persona county year df' = ask question persona county year df"
    by (simp add: ask_def)
  then have "response out' = response out"
    using a a' by simp
  then show ?thesis
    using run run' by simp
qed

theorem response_independent_of_toggles_witness:
  "select_rows df_repeat ''Cork'' 2025 = row_cork # [row_cork_again]
   \<and> select_rows df_gap ''Cork'' 2025 = row_cork # []
   \<and> (\<exists>out out'.
         script df_repeat ''Cork'' 2025 False False False persona_GRAINA ''Premiums?'' = Inr out
         \<and> script df_gap ''Cork'' 2025 True True True persona_GRAINA ''Premiums?'' = Inr out'
         \<and> response out' = response out)"
proof -
  have h: "select_rows df_repeat ''Cork'' 2025 = row_cork # [row_cork_again]"
    by (simp add: df_repeat_cork)
  have h': "select_rows df_gap ''Cork'' 2025 = row_cork # []"
    by (simp add: df_gap_cork)
  show ?thesis
    using h h'
      response_independent_of_toggles [OF h h' refl refl refl refl,
        of False False False persona_GRAINA "''Premiums?''" True True True]
    by simp
qed

section \<open>Unknown personas\<close>

text \<open>
  C9. For a persona that is none of the four known ones, on a key with a row, the
  generator returns the fixed message \<^verbatim>\<open>No persona selected.\<close> and raises nothing.
\<close>

theorem unknown_persona_sentinel:
  assumes "persona \<notin> {persona_EIREA, persona_SOLARA, persona_GRAINA, persona_AI_SCEAL}"
    and "select_rows df county year = r # rs"
  shows "generate_persona_response persona county year df = Inr ''No persona selected.''"
  using assms(1)
  by (simp add: generate_persona_response_resolved [OF assms(2)] no_persona_def)

theorem unknown_persona_sentinel_witness:
  "''TEAGASC'' \<notin> {persona_EIREA, persona_SOLARA, persona_GRAINA, persona_AI_SCEAL}
   \<and> select_rows df_gap ''Cork'' 2025 = row_cork # []
   \<and> generate_persona_response ''TEAGASC'' ''Cork'' 2025 df_gap = Inr ''No persona selected.''"
proof -
  have p: "''TEAGASC'' \<notin> {persona_EIREA, persona_SOLARA, persona_GRAINA, persona_AI_SCEAL}"
    by (simp add: persona_EIREA_def persona_SOLARA_def persona_GRAINA_def
        persona_AI_SCEAL_def)
  have h: "select_rows df_gap ''Cork'' 2025 = row_cork # []"
    by (simp add: df_gap_cork)
  show ?thesis
    using p h unknown_persona_sentinel [OF p h] by simp
qed

section \<open>Repeated keys\<close>

text \<open>The answer of the first persona on Cork in 2025 with a yield of 1000, written out.\<close>

lemma str_int_2025: "str_int 2025 = ''2025''"
  by (simp add: str_int_def str_nat.simps)

lemma fmt_f_1000: "fmt_f 1 1000 = ''1000.0''"
  by (simp add: fmt_f_def round_half_even_def frac_part_def zfill_def str_nat.simps Let_def)

lemma fmt_f_990: "fmt_f 1 990 = ''990.0''"
  by (simp add: fmt_f_def round_half_even_def frac_part_def zfill_def str_nat.simps Let_def)

lemma eirea_text_cork:
  "eirea_text ''Cork'' 2025 1000 =
     [CHR 0xC3, CHR 0x89] @ ''IREA: In 2025, Cork achieved a CRISPR-driven yield boost of 1000.0 kg/ha. This provides a solid base for transitioning to more resilient agroforestry systems. Agroforestry support programs should prioritize regions with >1000.0 kg/ha to capitalize on biological synergies.''"
  unfolding eirea_text_def persona_EIREA_def str_int_2025 fmt_f_1000 by simp

lemma eirea_text_cork_again:
  "eirea_text ''Cork'' 2025 990 =
     [CHR 0xC3, CHR 0x89] @ ''IREA: In 2025, Cork achieved a CRISPR-driven yield boost of 990.0 kg/ha. This provides a solid base for transitioning to more resilient agroforestry systems. Agroforestry support programs should prioritize regions with >990.0 kg/ha to capitalize on biological synergies.''"
  unfolding eirea_text_def persona_EIREA_def str_int_2025 fmt_f_990 by simp

text \<open>
  C10. When more than one row has the selected key, nothing checks it and nothing is
  raised, and both lookups take the first of these rows. The run of the script ends with
  the toggles applied to the four values of that first row as its adjusted metrics. The
  persona generator returns the persona's sentence filled with the values of that first
  row (for each of the four personas: its template over the first row's yield, solar
  adoption, yield and carbon credits, or risk score), and that sentence is the answer of
  the run when a question was typed. No value of a later row with the key enters either.
\<close>

theorem repeated_key_uses_first_row:
  assumes "select_rows df county year = r # r2 # rs"
  shows "\<exists>out a.
           script df county year agro solar bio persona question = Inr out
           \<and> adjusted out = apply_toggles agro solar bio
                \<lparr>yield_boost = CRISPR_YieldBoost r, solar_pct = SolarAdoption r,
                 biomass = BiomassOutput r, carbon_offset = CarbonCreditsEarned r\<rparr>
           \<and> generate_persona_response persona county year df = Inr a
           \<and> a = (if persona = persona_EIREA then
                     eirea_text county year (CRISPR_YieldBoost r)
                   else if persona = persona_SOLARA then
                     solara_text county year (SolarAdoption r)
                   else if persona = persona_GRAINA then
                     graina_text county year (CRISPR_YieldBoost r) (CarbonCreditsEarned r)
                   else if persona = persona_AI_SCEAL then
                     ai_sceal_text county year
                       (100 - min 100 (CRISPR_YieldBoost r / 6 + SolarAdoption r
                                         + BiomassOutput r * 2))
                   else ''No persona selected.'')
           \<and> response out = (if question = [] then None else Some a)"
proof -
  obtain out where
    run: "script df county year agro solar bio persona question = Inr out"
    and adj: "adjusted out = apply_toggles agro solar bio
                \<lparr>yield_boost = CRISPR_YieldBoost r, solar_pct = SolarAdoption r,
                 biomass = BiomassOutput r, carbon_offset = CarbonCreditsEarned r\<rparr>"
    and a: "ask question persona county year df = Inr (response out)"
    using script_resolved [OF assms] by blast
  define s where
    "s = (if persona = persona_EIREA then
            eirea_text county year (CRISPR_YieldBoost r)
          else if persona = persona_SOLARA then
            solara_text county year (SolarAdoption r)
          else if persona = persona_GRAINA then
            graina_text county year (CRISPR_YieldBoost r) (CarbonCreditsEarned r)
          else if persona = persona_AI_SCEAL then
            ai_sceal_text county year
              (100 - min 100 (CRISPR_YieldBoost r / 6 + SolarAdoption r
                                + BiomassOutput r * 2))
          else ''No persona selected.'')"
  have g: "generate_persona_response persona county year df = Inr s"
    unfolding s_def
    by (simp add: generate_persona_response_resolved [OF assms] risk_score_def
        no_persona_def)
  have "response out = (if question = [] then None else Some s)"
    using a by (simp add: ask_def g split: if_splits)
  then show ?thesis
    using run adj g s_def by blast
qed

theorem repeated_key_uses_first_row_witness:
  "select_rows df_repeat ''Cork'' 2025 = row_cork # row_cork_again # []
   \<and> CRISPR_YieldBoost row_cork = 1000 \<and> CRISPR_YieldBoost row_cork_again = 990
   \<and> eirea_text ''Cork'' 2025 990 \<noteq> eirea_text ''Cork'' 2025 1000
   \<and> (\<exists>out.
         script df_repeat ''Cork'' 2025 False True False persona_EIREA ''Yield?'' = Inr out
         \<and> adjusted out =
             \<lparr>yield_boost = 1000, solar_pct = 34.5, biomass = 50, carbon_offset = 10\<rparr>
         \<and> generate_persona_response persona_EIREA ''Cork'' 2025 df_repeat =
             Inr ([CHR 0xC3, CHR 0x89] @ ''IREA: In 2025, Cork achieved a CRISPR-driven yield boost of 1000.0 kg/ha. This provides a solid base for transitioning to more resilient agroforestry systems. Agroforestry support programs should prioritize regions with >1000.0 kg/ha to capitalize on biological synergies.'')
         \<and> response out =
             Some ([CHR 0xC3, CHR 0x89] @ ''IREA: In 2025, Cork achieved a CRISPR-driven yield boost of 1000.0 kg/ha. This provides a solid base for transitioning to more resilient agroforestry systems. Agroforestry support programs should prioritize regions with >1000.0 kg/ha to capitalize on biological synergies.''))"
proof -
  have h: "select_rows df_repeat ''Cork'' 2025 = row_cork # row_cork_again # []"
    by (simp add: df_repeat_cork)
  have v: "CRISPR_YieldBoost row_cork = 1000" "CRISPR_YieldBoost row_cork_again = 990"
    by (simp_all add: row_cork_def row_cork_again_def)
  have d: "eirea_text ''Cork'' 2025 990 \<noteq> eirea_text ''Cork'' 2025 1000"
    unfolding eirea_text_cork eirea_text_cork_again by simp
  have m: "apply_toggles False True False
             \<lparr>yield_boost = CRISPR_YieldBoost row_cork, solar_pct = SolarAdoption row_cork,
              biomass = BiomassOutput row_cork, carbon_offset = CarbonCreditsEarned row_cork\<rparr> =
           \<lparr>yield_boost = 1000, solar_pct = 34.5, biomass = 50, carbon_offset = 10\<rparr>"
    by (simp add: apply_toggles_def row_cork_def)
  obtain out a where
    run: "script df_repeat ''Cork'' 2025 False True False persona_EIREA ''Yield?'' = Inr out"
    and adj: "adjusted out =
                \<lparr>yield_boost = 1000, solar_pct = 34.5, biomass = 50, carbon_offset = 10\<rparr>"
    and g: "generate_persona_response persona_EIREA ''Cork'' 2025 df_repeat = Inr a"
    and a: "a = eirea_text ''Cork'' 2025 (CRISPR_YieldBoost row_cork)"
    and r: "response out = Some a"
    using repeated_key_uses_first_row [OF h, of False True False persona_EIREA "''Yield?''"]
    unfolding m by auto
  have "a = [CHR 0xC3, CHR 0x89] @ ''IREA: In 2025, Cork achieved a CRISPR-driven yield boost of 1000.0 kg/ha. This provides a solid base for transitioning to more resilient agroforestry systems. Agroforestry support programs should prioritize regions with >1000.0 kg/ha to capitalize on biological synergies.''"
    unfolding a v(1) by (rule eirea_text_cork)
  then show ?thesis
    using h v d run adj g r by blast
qed

section \<open>Keys without a row\<close>

text \<open>
  C2 asks that a key without a row gives the "no data" message and raises nothing. The
  table \<open>df_gap\<close> has Cork in 2025 and Dublin in 2026, so the sidebar offers Cork and the
  year 2026, and no row has that key. The persona generator, called on this key, returns
  its "no data" message; the script raises IndexError at line 27, before any tile is
  shown and before the generator is called.
\<close>

theorem missing_key_raises_IndexError:
  "offered df_gap ''Cork'' 2026
   \<and> select_rows df_gap ''Cork'' 2026 = []
   \<and> generate_persona_response persona_EIREA ''Cork'' 2026 df_gap =
       Inr ''No data available for this county and year.''
   \<and> script df_gap ''Cork'' 2026 False False False persona_EIREA ''Which year?'' =
       Inl IndexError"
proof -
  have o: "offered df_gap ''Cork'' 2026"
    by (simp add: offered_def df_gap_def row_cork_def row_dublin_def)
  have g: "generate_persona_response persona_EIREA ''Cork'' 2026 df_gap =
             Inr ''No data available for this county and year.''"
    by (simp add: generate_persona_response_missing [OF df_gap_missing] no_data_def)
  have "df_gap \<noteq> []"
    by (simp add: df_gap_def)
  then have "script df_gap ''Cork'' 2026 False False False persona_EIREA ''Which year?'' =
               Inl IndexError"
    by (simp add: script_missing [OF df_gap_missing])
  then show ?thesis
    using o g df_gap_missing by simp
qed

end
